theory Spec2Isabelle
  imports Main "HOL-Library.Sublist" "HOL-Library.Char_ord" "HOL-Library.List_Lexorder"
begin

section \<open>Sliding-window segmentation (\<open>VideoAnalyzer.applySlidingWindow\<close>)\<close>

text \<open>
  \<open>SampledFrames\<close> is the interface of the analyzer source: two parallel arrays, the
  paths of the extracted frame images and their frame indices.
\<close>

record SampledFrames =
  framePaths :: "string list"
  indices :: "nat list"

text \<open>
  \<open>batchSize\<close> and \<open>slideSize\<close> are documented in the source as the number of frames of a
  window and the step of the window; they are modelled as naturals. The JavaScript
  remainder \<open>a % b\<close> on such numbers is \<open>NaN\<close> for \<open>b = 0\<close>, which is \<open>None\<close> here.
\<close>

definition js_rem :: "nat \<Rightarrow> nat \<Rightarrow> nat option" where
  "js_rem a b = (if b = 0 then None else Some (a mod b))"

text \<open>
  \<open>Array.prototype.slice(start, fin)\<close> for non-negative arguments: both bounds are
  clamped to the length, and an empty array comes out when \<open>fin\<close> is not beyond \<open>start\<close>.
\<close>

definition slice :: "'a list \<Rightarrow> nat \<Rightarrow> nat \<Rightarrow> 'a list" where
  "slice xs start fin =
     (let len = length xs; k = min start len; final = min fin len
      in take (final - k) (drop k xs))"

datatype console_msg =
    LogApplying
  | WarnOmitted "nat option"
  | WarnRecommended "nat list"
  | LogCreated nat nat nat

text \<open>
  Everything the pipeline throws. \<open>SamplingFailed\<close> and \<open>SummaryFailed\<close> are the two
  places where the source catches an error and throws a new one that quotes it.
\<close>

datatype error =
    BatchTooLarge nat nat
  | InvalidUrl
  | DownloadFailed
  | ProbeFailed
  | NoVideoStream
  | ExtractFailed
  | ReaddirFailed
  | SamplingFailed error
  | ReadFileFailed string
  | SendFailed
  | SyntaxError
  | TypeError
  | SummaryFailed error

text \<open>The object pushed by one round of the window loop, for the start index \<open>i\<close>.\<close>

definition window_at :: "SampledFrames \<Rightarrow> nat \<Rightarrow> nat \<Rightarrow> SampledFrames" where
  "window_at sf batchSize i =
     \<lparr> framePaths = slice (framePaths sf) i (i + batchSize),
       indices = slice (indices sf) i (i + batchSize) \<rparr>"

text \<open>
  The loop \<open>for (let i = 0; i <= lastStart; i += slideSize) windows.push(...)\<close>. Nothing in
  the source bounds the number of rounds, so the loop is a partial function: \<open>None\<close> is
  a run that never leaves the loop.
\<close>

partial_function (option) window_loop ::
  "SampledFrames \<Rightarrow> nat \<Rightarrow> nat \<Rightarrow> nat \<Rightarrow> nat \<Rightarrow> SampledFrames list \<Rightarrow> SampledFrames list option"
where
  "window_loop sf batchSize slideSize lastStart i windows =
     (if i \<le> lastStart
      then window_loop sf batchSize slideSize lastStart (i + slideSize)
             (windows @ [window_at sf batchSize i])
      else Some windows)"

declare window_loop.simps [code]

text \<open>
  The recommended slide sizes printed with the warning:
  \<open>Array.from({length: batchSize - 1}, (_, i) => i + 1).filter(i => (totalFrames - batchSize) % i === 0)\<close>.
\<close>

definition recommended :: "nat \<Rightarrow> nat \<Rightarrow> nat list" where
  "recommended totalFrames batchSize =
     filter (\<lambda>i. js_rem (totalFrames - batchSize) i = Some 0)
       (map (\<lambda>i. i + 1) [0..<batchSize - 1])"

text \<open>
  \<open>applySlidingWindow\<close> returns what it throws or returns, together with the lines it
  wrote to the console, in order.
\<close>

definition applySlidingWindow ::
  "SampledFrames \<Rightarrow> nat \<Rightarrow> nat \<Rightarrow> ((error + SampledFrames list) \<times> console_msg list) option"
where
  "applySlidingWindow sampledFrames batchSize slideSize =
     (let totalFrames = length (framePaths sampledFrames) in
      if batchSize > totalFrames
      then Some (Inl (BatchTooLarge batchSize totalFrames), [LogApplying])
      else
        let remainingFrames = js_rem (totalFrames - batchSize) slideSize;
            warnings =
              (if remainingFrames \<noteq> Some 0
               then [WarnOmitted remainingFrames,
                     WarnRecommended (recommended totalFrames batchSize)]
               else []);
            lastStart = totalFrames - batchSize
        in case window_loop sampledFrames batchSize slideSize lastStart 0 [] of
             None \<Rightarrow> None
           | Some windows \<Rightarrow>
               Some (Inr windows,
                     [LogApplying] @ warnings
                       @ [LogCreated batchSize slideSize (length windows)]))"

section \<open>JavaScript values\<close>

text \<open>
  \<open>JSON.parse(text) as T\<close> only casts: whatever value the text denotes is handed on.
  The model therefore keeps parsed values as JavaScript values. An object is the list of
  its own properties, looked up from the front.
\<close>

datatype js =
    Undefined
  | JNull
  | JBool bool
  | JNum int
  | JStr string
  | JArr "js list"
  | JObj "(string \<times> js) list"

text \<open>
  Reading a property \<open>v.p\<close>, for the property names the analyzer reads
  (\<open>sequence_summary\<close>, \<open>key_events\<close>, \<open>length\<close>): on \<open>undefined\<close> and \<open>null\<close> it
  throws a TypeError, on an object it is the property or \<open>undefined\<close>, and only arrays and
  strings have a \<open>length\<close> of their own.
\<close>

fun js_get :: "js \<Rightarrow> string \<Rightarrow> error + js" where
  "js_get Undefined p = Inl TypeError"
| "js_get JNull p = Inl TypeError"
| "js_get (JObj kvs) p = Inr (case map_of kvs p of None \<Rightarrow> Undefined | Some v \<Rightarrow> v)"
| "js_get (JArr xs) p = Inr (if p = ''length'' then JNum (int (length xs)) else Undefined)"
| "js_get (JStr s) p = Inr (if p = ''length'' then JNum (int (length s)) else Undefined)"
| "js_get (JBool b) p = Inr Undefined"
| "js_get (JNum n) p = Inr Undefined"

section \<open>The Bedrock client (\<open>bedrock-client.ts\<close>)\<close>

record TokenUsage =
  inputTokens :: nat
  outputTokens :: nat
  totalTokens :: nat

record ApiResponse =
  response_text :: string
  token_usage :: TokenUsage

text \<open>
  What the two public methods put into the user message: the frames, the frame count and
  the previous description for \<open>analyzeFrames\<close>, the descriptions for \<open>generateSummary\<close>.
  The fixed system prompts are not part of the model.
\<close>

datatype request =
    AnalyzeReq "string list" nat js
  | SummaryReq "js list"

text \<open>
  The body of a model response, as far as \<open>invokeModel\<close> reads it: the optional \<open>usage\<close>
  object with its optional token counts, and \<open>content[0].text\<close>, a string by the contract
  of the service. \<open>None\<close> stands for a body where that text is not there to read: the
  source then throws, in \<open>invokeModel\<close> when \<open>content[0]\<close> is missing or in the \<open>JSON.parse\<close>
  of the caller when only \<open>text\<close> is, in both cases after the usage has been added. A text
  that is there but is no string is outside that contract and is not modelled. Token
  counts are counts: naturals.
\<close>

record usage =
  input_tokens :: "nat option"
  output_tokens :: "nat option"

record response_body =
  body_usage :: "usage option"
  content_text :: "string option"

text \<open>
  One \<open>client.send(command)\<close>: it rejects, or it delivers bytes that are no JSON, or it
  delivers a body.
\<close>

datatype send_result =
    SendError
  | BodyUnparseable
  | Body response_body

section \<open>The world outside the program\<close>

text \<open>
  One stream of the \<open>ffprobe\<close> metadata, with the fields \<open>getVideoInfo\<close> reads, typed as in
  the declarations of the ffmpeg binding: every field may be missing.
\<close>

record video_stream =
  codec_type :: "string option"
  r_frame_rate :: "string option"
  nb_frames :: "string option"
  duration :: "string option"
  width :: "nat option"
  height :: "nat option"

text \<open>
  The environment answers every call that leaves the program. \<open>'f\<close> is the type of
  floating-point numbers; the operations on them that the source uses are fields of the
  environment, so that no theorem depends on how they round.
  \<^item> \<open>url_basename u\<close>: \<open>path.basename(new URL(u).pathname)\<close>, \<open>None\<close> when \<open>new URL\<close> throws;
  \<^item> \<open>http_ok u\<close>: the download answered with status 200 and was written completely;
  \<^item> \<open>ffprobe p\<close>: the streams of the video, \<open>None\<close> when \<open>ffprobe\<close> reports an error;
  \<^item> \<open>ffmpeg_extract p interval ratio\<close>: the files the extraction left in the frames
    directory, and whether it ended without error;
  \<^item> \<open>readFileSync p\<close>: the base64 text of the file, \<open>None\<close> when reading throws;
  \<^item> \<open>send k r\<close>: the answer of the service to request \<open>r\<close>, sent as call number \<open>k\<close>;
  \<^item> \<open>json_parse t\<close>: \<open>JSON.parse(t)\<close>, \<open>None\<close> when it throws a SyntaxError.
\<close>

record 'f env =
  url_basename :: "string \<Rightarrow> string option"
  http_ok :: "string \<Rightarrow> bool"
  ffprobe :: "string \<Rightarrow> video_stream list option"
  ffmpeg_extract :: "string \<Rightarrow> 'f \<Rightarrow> 'f \<Rightarrow> string list \<times> bool"
  readFileSync :: "string \<Rightarrow> string option"
  send :: "nat \<Rightarrow> request \<Rightarrow> send_result"
  json_parse :: "string \<Rightarrow> js option"
  fzero :: 'f
  rate_to_fps :: "string \<Rightarrow> 'f"
  truthy :: "'f \<Rightarrow> bool"
  is_nan :: "'f \<Rightarrow> bool"
  ceil_duration_times :: "string \<Rightarrow> 'f \<Rightarrow> 'f"
  frame_interval :: "'f \<Rightarrow> 'f \<Rightarrow> 'f"
  round_scaled :: "nat \<Rightarrow> 'f \<Rightarrow> 'f"

text \<open>
  The file system is the listing of each directory the program touches. The state of a
  run is the file system, the token totals of the client (\<open>BedrockClient.totalTokens\<close>)
  and the requests sent so far, oldest first.
\<close>

type_synonym fs = "string \<rightharpoonup> string list"

record world =
  fs :: fs
  tokens :: TokenUsage
  sent :: "request list"

text \<open>
  \<open>path.join(dir, name)\<close> for a directory and a name that are already normalised (no \<open>.\<close> or
  \<open>..\<close> segment, no doubled or trailing slash): the two joined by a slash. What
  \<open>path.join\<close> does to other arguments is not modelled; the concrete runs below use
  normalised directories.
\<close>

definition path_join :: "string \<Rightarrow> string \<Rightarrow> string" where
  "path_join dir name = dir @ ''/'' @ name"

definition existsSync :: "string \<Rightarrow> fs \<Rightarrow> bool" where
  "existsSync p f = (f p \<noteq> None)"

definition mkdirSync :: "string \<Rightarrow> fs \<Rightarrow> fs" where
  "mkdirSync p f = (if existsSync p f then f else f(p \<mapsto> []))"

text \<open>\<open>rimraf.sync(p)\<close> removes the directory and everything below it.\<close>

definition rimraf_sync :: "string \<Rightarrow> fs \<Rightarrow> fs" where
  "rimraf_sync p f = (\<lambda>q. if q = p \<or> prefix (p @ ''/'') q then None else f q)"

definition write_file :: "string \<Rightarrow> string \<Rightarrow> fs \<Rightarrow> fs" where
  "write_file dir name f =
     (case f dir of
        None \<Rightarrow> f
      | Some names \<Rightarrow> if name \<in> set names then f else f(dir \<mapsto> names @ [name]))"

subsection \<open>\<open>invokeModel\<close>\<close>

text \<open>\<open>x || 0\<close> on an optional count.\<close>

definition or_zero :: "nat option \<Rightarrow> nat" where
  "or_zero x = (case x of None \<Rightarrow> 0 | Some n \<Rightarrow> n)"

definition invokeModel :: "'f env \<Rightarrow> request \<Rightarrow> world \<Rightarrow> (error + ApiResponse) \<times> world" where
  "invokeModel env messages w =
     (let response = send env (length (sent w)) messages;
          w0 = w\<lparr>sent := sent w @ [messages]\<rparr>
      in case response of
           SendError \<Rightarrow> (Inl SendFailed, w0)
         | BodyUnparseable \<Rightarrow> (Inl SyntaxError, w0)
         | Body responseBody \<Rightarrow>
             let w1 =
               (case body_usage responseBody of
                  None \<Rightarrow> w0
                | Some u \<Rightarrow>
                    let i = inputTokens (tokens w0) + or_zero (input_tokens u);
                        out = outputTokens (tokens w0) + or_zero (output_tokens u)
                    in w0\<lparr>tokens := \<lparr>inputTokens = i, outputTokens = out,
                                      totalTokens = i + out\<rparr>\<rparr>)
             in case content_text responseBody of
                  None \<Rightarrow> (Inl TypeError, w1)
                | Some t \<Rightarrow>
                    let i = (case body_usage responseBody of
                               None \<Rightarrow> 0 | Some u \<Rightarrow> or_zero (input_tokens u));
                        out = (case body_usage responseBody of
                                 None \<Rightarrow> 0 | Some u \<Rightarrow> or_zero (output_tokens u))
                    in (Inr \<lparr>response_text = t,
                             token_usage = \<lparr>inputTokens = i, outputTokens = out,
                                              totalTokens = i + out\<rparr>\<rparr>, w1))"

subsection \<open>\<open>analyzeFrames\<close> and \<open>generateSummary\<close>\<close>

text \<open>
  \<open>prevFrameDesc: string = "None"\<close> is a default parameter: it replaces \<open>undefined\<close>, and
  nothing else.
\<close>

definition analyzeFrames ::
  "'f env \<Rightarrow> string list \<Rightarrow> nat list \<Rightarrow> js \<Rightarrow> world \<Rightarrow> (error + js) \<times> world"
where
  "analyzeFrames env frames frameIndices prevFrameDesc w =
     (let prev = (if prevFrameDesc = Undefined then JStr ''None'' else prevFrameDesc)
      in case invokeModel env (AnalyzeReq frames (length frameIndices) prev) w of
           (Inl e, w1) \<Rightarrow> (Inl e, w1)
         | (Inr result, w1) \<Rightarrow>
             (case json_parse env (response_text result) of
                None \<Rightarrow> (Inl SyntaxError, w1)
              | Some v \<Rightarrow> (Inr v, w1)))"

definition generateSummary :: "'f env \<Rightarrow> js list \<Rightarrow> world \<Rightarrow> (error + js) \<times> world" where
  "generateSummary env frameDescriptions w =
     (case invokeModel env (SummaryReq frameDescriptions) w of
        (Inl e, w1) \<Rightarrow> (Inl e, w1)
      | (Inr result, w1) \<Rightarrow>
          (case json_parse env (response_text result) of
             None \<Rightarrow> (Inl SyntaxError, w1)
           | Some v \<Rightarrow> (Inr v, w1)))"

text \<open>\<open>getTokenUsage\<close> hands out the totals; the cost is a floating-point product of them.\<close>

definition getTokenUsage :: "world \<Rightarrow> TokenUsage" where
  "getTokenUsage w = tokens w"

text \<open>A new client: \<open>totalTokens\<close> is all zero and nothing has been sent.\<close>

definition new_BedrockClient :: "fs \<Rightarrow> world" where
  "new_BedrockClient f =
     \<lparr> fs = f, tokens = \<lparr>inputTokens = 0, outputTokens = 0, totalTokens = 0\<rparr>, sent = [] \<rparr>"

section \<open>The analyzer\<close>

record 'f VideoProcessingConfig =
  sampleMsec :: 'f
  resizeRatio :: 'f
  frameBatchSize :: nat
  slidingWindowSize :: nat
  outputDir :: string

record 'f VideoAnalyzer =
  videoUrl :: string
  config :: "'f VideoProcessingConfig"
  tempDir :: string

text \<open>
  The constructor makes the temporary directory and the output directory and a new client.
  \<open>tmp\<close> stands for \<open>path.join(process.cwd(), "tmp_" + uuidv4())\<close>.
\<close>

definition new_VideoAnalyzer ::
  "string \<Rightarrow> 'f VideoProcessingConfig \<Rightarrow> string \<Rightarrow> fs \<Rightarrow> 'f VideoAnalyzer \<times> world"
where
  "new_VideoAnalyzer url cfg tmp f =
     (\<lparr> videoUrl = url, config = cfg, tempDir = tmp \<rparr>,
      new_BedrockClient (mkdirSync (outputDir cfg) (mkdirSync tmp f)))"

subsection \<open>\<open>downloadVideoFromUrl\<close>\<close>

definition downloadVideoFromUrl ::
  "'f env \<Rightarrow> 'f VideoAnalyzer \<Rightarrow> world \<Rightarrow> (error + string) \<times> world"
where
  "downloadVideoFromUrl env a w =
     (case url_basename env (videoUrl a) of
        None \<Rightarrow> (Inl InvalidUrl, w)
      | Some fileName \<Rightarrow>
          let localFilePath = path_join (tempDir a) fileName;
              w1 = w\<lparr>fs := write_file (tempDir a) fileName (fs w)\<rparr>
          in if http_ok env (videoUrl a) then (Inr localFilePath, w1)
             else (Inl DownloadFailed, w1))"

subsection \<open>\<open>getVideoInfo\<close>\<close>

text \<open>
  \<open>parseInt(s, 10)\<close>: leading white space, an optional sign, then the longest run of
  decimal digits; \<open>None\<close> is \<open>NaN\<close>, the result when there is no digit. (The loss of
  precision beyond 2^53 is not modelled.)
\<close>

definition is_space :: "char \<Rightarrow> bool" where
  "is_space c = (c \<in> set [CHR 0x09, CHR 0x0A, CHR 0x0B, CHR 0x0C, CHR 0x0D, CHR '' ''])"

definition is_digit :: "char \<Rightarrow> bool" where
  "is_digit c = (c \<in> set ''0123456789'')"

definition digits_value :: "string \<Rightarrow> nat" where
  "digits_value ds = foldl (\<lambda>acc c. 10 * acc + (of_char c - 48)) 0 ds"

definition parseInt10 :: "string \<Rightarrow> int option" where
  "parseInt10 s =
     (let t = dropWhile is_space s;
          neg = (case t of [] \<Rightarrow> False | c # _ \<Rightarrow> c = CHR ''-'');
          u = (case t of [] \<Rightarrow> [] | c # r \<Rightarrow> if c = CHR ''-'' \<or> c = CHR ''+'' then r else t);
          ds = takeWhile is_digit u
      in if ds = [] then None
         else Some (if neg then - int (digits_value ds) else int (digits_value ds)))"

text \<open>\<open>s || d\<close> on an optional string: the default replaces \<open>undefined\<close> and the empty string.\<close>

definition or_default :: "string option \<Rightarrow> string \<Rightarrow> string" where
  "or_default s d = (case s of None \<Rightarrow> d | Some t \<Rightarrow> if t = [] then d else t)"

text \<open>
  The frame count is \<open>NaN\<close>, an integer that \<open>parseInt\<close> read, or the floating-point
  number that \<open>Math.ceil\<close> returned.
\<close>

datatype 'f count = NotANumber | Exact int | Approx 'f

definition isNaN :: "'f env \<Rightarrow> 'f count \<Rightarrow> bool" where
  "isNaN env c = (case c of NotANumber \<Rightarrow> True | Exact k \<Rightarrow> False | Approx x \<Rightarrow> is_nan env x)"

record 'f video_metadata =
  fps :: 'f
  frameCount :: "'f count"
  meta_width :: nat
  meta_height :: nat

definition getVideoInfo :: "'f env \<Rightarrow> string \<Rightarrow> error + 'f video_metadata" where
  "getVideoInfo env videoPath =
     (case ffprobe env videoPath of
        None \<Rightarrow> Inl ProbeFailed
      | Some streams \<Rightarrow>
          (case find (\<lambda>stream. codec_type stream = Some ''video'') streams of
             None \<Rightarrow> Inl NoVideoStream
           | Some videoStream \<Rightarrow>
               let fps0 = (case r_frame_rate videoStream of
                             None \<Rightarrow> fzero env
                           | Some r \<Rightarrow> if r = [] then fzero env else rate_to_fps env r);
                   frameCount0 =
                     (case parseInt10 (or_default (nb_frames videoStream) ''0'') of
                        None \<Rightarrow> NotANumber
                      | Some k \<Rightarrow> Exact k);
                   frameCount1 =
                     (if isNaN env frameCount0 \<and> or_default (duration videoStream) [] \<noteq> []
                           \<and> truthy env fps0
                      then Approx (ceil_duration_times env
                                     (or_default (duration videoStream) []) fps0)
                      else frameCount0)
               in Inr \<lparr> fps = fps0,
                        frameCount = (if isNaN env frameCount1 then Exact 0 else frameCount1),
                        meta_width = (case width videoStream of None \<Rightarrow> 0 | Some n \<Rightarrow> n),
                        meta_height = (case height videoStream of None \<Rightarrow> 0 | Some n \<Rightarrow> n) \<rparr>))"

subsection \<open>\<open>sampleVideoFrames\<close>\<close>

record 'f VideoInfo =
  totalFrameCount :: "'f count"
  sampledCount :: nat
  frameWidth :: 'f
  frameHeight :: 'f

definition setupDirectory :: "string \<Rightarrow> fs \<Rightarrow> fs" where
  "setupDirectory dirPath f =
     mkdirSync dirPath (if existsSync dirPath f then rimraf_sync dirPath f else f)"

text \<open>\<open>path.basename\<close>: what follows the last slash.\<close>

definition basename :: "string \<Rightarrow> string" where
  "basename p = rev (takeWhile (\<lambda>c. c \<noteq> CHR ''/'') (rev p))"

text \<open>
  \<open>filename.match(/frame_(\d+)\.jpg/)\<close> and \<open>parseInt(match[1], 10)\<close>: the first place
  where \<open>frame_\<close>, one or more digits and \<open>.jpg\<close> follow each other.
\<close>

definition match_here :: "string \<Rightarrow> nat option" where
  "match_here s =
     (if prefix ''frame_'' s
      then let r = drop 6 s; ds = takeWhile is_digit r
           in if ds \<noteq> [] \<and> prefix ''.jpg'' (dropWhile is_digit r)
              then Some (digits_value ds) else None
      else None)"

fun match_frame :: "string \<Rightarrow> nat option" where
  "match_frame [] = None"
| "match_frame (c # cs) =
     (case match_here (c # cs) of Some n \<Rightarrow> Some n | None \<Rightarrow> match_frame cs)"

definition frame_index :: "string \<Rightarrow> nat" where
  "frame_index framePath =
     (case match_frame (basename framePath) of None \<Rightarrow> 0 | Some n \<Rightarrow> n)"

text \<open>
  The whole body runs inside one \<open>try\<close>, whose \<open>catch\<close> rejects with a new error that
  quotes the caught one.
\<close>

definition sampleVideoFrames ::
  "'f env \<Rightarrow> 'f VideoAnalyzer \<Rightarrow> string \<Rightarrow> world
     \<Rightarrow> (error + SampledFrames \<times> 'f VideoInfo) \<times> world"
where
  "sampleVideoFrames env a videoPath w =
     (let framesDir = path_join (outputDir (config a)) ''frames'';
          w1 = w\<lparr>fs := setupDirectory framesDir (fs w)\<rparr>
      in case getVideoInfo env videoPath of
           Inl e \<Rightarrow> (Inl (SamplingFailed e), w1)
         | Inr videoMetadata \<Rightarrow>
             let frameInterval =
                   frame_interval env (sampleMsec (config a)) (fps videoMetadata);
                 extraction =
                   ffmpeg_extract env videoPath frameInterval (resizeRatio (config a));
                 w2 = w1\<lparr>fs := (fs w1)(framesDir \<mapsto> fst extraction)\<rparr>
             in if \<not> snd extraction then (Inl (SamplingFailed ExtractFailed), w2)
                else
                  (case fs w2 framesDir of
                     None \<Rightarrow> (Inl (SamplingFailed ReaddirFailed), w2)
                   | Some files \<Rightarrow>
                       let paths =
                             sort (map (path_join framesDir)
                                     (filter (\<lambda>file. prefix ''frame_'' file
                                                    \<and> suffix ''.jpg'' file) files));
                           idx = map frame_index paths;
                           videoInfo =
                             \<lparr> totalFrameCount = frameCount videoMetadata,
                               sampledCount = length paths,
                               frameWidth = round_scaled env (meta_width videoMetadata)
                                              (resizeRatio (config a)),
                               frameHeight = round_scaled env (meta_height videoMetadata)
                                               (resizeRatio (config a)) \<rparr>
                       in (Inr (\<lparr> framePaths = paths, indices = idx \<rparr>, videoInfo), w2)))"

subsection \<open>\<open>generateFrameDescriptions\<close>\<close>

text \<open>
  The text pushed for a window whose analysis threw. (The source's text is Korean; this
  constant stands for it.)
\<close>

definition placeholder :: js where
  "placeholder = JStr ''[error: the analysis of this window failed]''"

text \<open>
  \<open>window.framePaths.map(filePath => this.imageFileToBase64(filePath))\<close>: the first file
  that cannot be read throws.
\<close>

fun read_frames :: "'f env \<Rightarrow> string list \<Rightarrow> error + string list" where
  "read_frames env [] = Inr []"
| "read_frames env (p # ps) =
     (case readFileSync env p of
        None \<Rightarrow> Inl (ReadFileFailed p)
      | Some b \<Rightarrow>
          (case read_frames env ps of Inl e \<Rightarrow> Inl e | Inr bs \<Rightarrow> Inr (b # bs)))"

text \<open>
  The loop over the windows, with the variables \<open>descriptions\<close> and \<open>prevFrameDesc\<close>. The
  files are read before the \<open>try\<close>. Inside the \<open>try\<close>, in this order: the call of
  \<open>analyzeFrames\<close>; the read of \<open>result.sequence_summary\<close>, pushed and assigned to
  \<open>prevFrameDesc\<close>; the log line, which reads \<open>result.key_events.length\<close>. Whatever throws
  there is caught, and the \<open>catch\<close> pushes the placeholder.
\<close>

fun frame_loop ::
  "'f env \<Rightarrow> SampledFrames list \<Rightarrow> js list \<Rightarrow> js \<Rightarrow> world \<Rightarrow> (error + js list) \<times> world"
where
  "frame_loop env [] descriptions prevFrameDesc w = (Inr descriptions, w)"
| "frame_loop env (window # rest) descriptions prevFrameDesc w =
     (case read_frames env (framePaths window) of
        Inl e \<Rightarrow> (Inl e, w)
      | Inr base64Frames \<Rightarrow>
          (case analyzeFrames env base64Frames (indices window) prevFrameDesc w of
             (Inl e, w1) \<Rightarrow>
               frame_loop env rest (descriptions @ [placeholder]) prevFrameDesc w1
           | (Inr result, w1) \<Rightarrow>
               (case js_get result ''sequence_summary'' of
                  Inl e \<Rightarrow>
                    frame_loop env rest (descriptions @ [placeholder]) prevFrameDesc w1
                | Inr sequence_summary \<Rightarrow>
                    (case js_get result ''key_events'' of
                       Inl e \<Rightarrow>
                         frame_loop env rest
                           (descriptions @ [sequence_summary] @ [placeholder])
                           sequence_summary w1
                     | Inr key_events \<Rightarrow>
                         (case js_get key_events ''length'' of
                            Inl e \<Rightarrow>
                              frame_loop env rest
                                (descriptions @ [sequence_summary] @ [placeholder])
                                sequence_summary w1
                          | Inr n \<Rightarrow>
                              frame_loop env rest (descriptions @ [sequence_summary])
                                sequence_summary w1)))))"

definition generateFrameDescriptions ::
  "'f env \<Rightarrow> SampledFrames list \<Rightarrow> world \<Rightarrow> (error + js list) \<times> world"
where
  "generateFrameDescriptions env windows w = frame_loop env windows [] (JStr ''None'') w"

subsection \<open>\<open>generateVideoSummary\<close>, \<open>cleanup\<close> and \<open>analyze\<close>\<close>

definition generateVideoSummary :: "'f env \<Rightarrow> js list \<Rightarrow> world \<Rightarrow> (error + js) \<times> world" where
  "generateVideoSummary env frameDescriptions w =
     (case generateSummary env frameDescriptions w of
        (Inl e, w1) \<Rightarrow> (Inl (SummaryFailed e), w1)
      | (Inr summary, w1) \<Rightarrow> (Inr summary, w1))"

definition cleanup :: "'f VideoAnalyzer \<Rightarrow> world \<Rightarrow> world" where
  "cleanup a w =
     (if existsSync (tempDir a) (fs w) then w\<lparr>fs := rimraf_sync (tempDir a) (fs w)\<rparr> else w)"

text \<open>
  The \<open>try\<close> block of \<open>analyze\<close>: the first stage that throws ends it. \<open>None\<close> is a run
  that never leaves the window loop. (\<open>printTokenUsage\<close> only prints.)
\<close>

definition analyze_try ::
  "'f env \<Rightarrow> 'f VideoAnalyzer \<Rightarrow> world \<Rightarrow> ((error + js) \<times> world) option"
where
  "analyze_try env a w =
     (case downloadVideoFromUrl env a w of
        (Inl e, w1) \<Rightarrow> Some (Inl e, w1)
      | (Inr videoPath, w1) \<Rightarrow>
          (case sampleVideoFrames env a videoPath w1 of
             (Inl e, w2) \<Rightarrow> Some (Inl e, w2)
           | (Inr (sampledFrames, videoInfo), w2) \<Rightarrow>
               (case applySlidingWindow sampledFrames (frameBatchSize (config a))
                       (slidingWindowSize (config a)) of
                  None \<Rightarrow> None
                | Some (Inl e, out) \<Rightarrow> Some (Inl e, w2)
                | Some (Inr windows, out) \<Rightarrow>
                    (case generateFrameDescriptions env windows w2 of
                       (Inl e, w3) \<Rightarrow> Some (Inl e, w3)
                     | (Inr frameDescriptions, w3) \<Rightarrow>
                         (case generateVideoSummary env frameDescriptions w3 of
                            (Inl e, w4) \<Rightarrow> Some (Inl e, w4)
                          | (Inr summary, w4) \<Rightarrow> Some (Inr summary, w4))))))"

text \<open>
  \<open>analyze\<close>: the \<open>catch\<close> throws the error on as it is, and the \<open>finally\<close> runs \<open>cleanup\<close>
  on every way out of the \<open>try\<close>.
\<close>

definition analyze ::
  "'f env \<Rightarrow> 'f VideoAnalyzer \<Rightarrow> world \<Rightarrow> ((error + js) \<times> world) option"
where
  "analyze env a w =
     (case analyze_try env a w of
        None \<Rightarrow> None
      | Some (r, w') \<Rightarrow> Some (r, cleanup a w'))"

section \<open>Token accounting, as the specification words it\<close>

text \<open>
  The token counts one answer of the service reports: those of its \<open>usage\<close> object, a
  missing count being zero; zero when there is no \<open>usage\<close>, or no body at all.
\<close>

definition reported :: "send_result \<Rightarrow> nat \<times> nat" where
  "reported r =
     (case r of
        Body b \<Rightarrow>
          (case body_usage b of
             None \<Rightarrow> (0, 0)
           | Some u \<Rightarrow> (or_zero (input_tokens u), or_zero (output_tokens u)))
      | SendError \<Rightarrow> (0, 0)
      | BodyUnparseable \<Rightarrow> (0, 0))"

text \<open>The answers to the requests sent so far, oldest first.\<close>

definition replies :: "'f env \<Rightarrow> world \<Rightarrow> send_result list" where
  "replies env w = map (\<lambda>k. send env k (sent w ! k)) [0..<length (sent w)]"

text \<open>The totals agree with the answers received so far.\<close>

definition accounted :: "'f env \<Rightarrow> world \<Rightarrow> bool" where
  "accounted env w =
     (inputTokens (tokens w) = sum_list (map (\<lambda>r. fst (reported r)) (replies env w))
      \<and> outputTokens (tokens w) = sum_list (map (\<lambda>r. snd (reported r)) (replies env w))
      \<and> totalTokens (tokens w) = inputTokens (tokens w) + outputTokens (tokens w))"

text \<open>A call of one of the two public methods of the client; its result is dropped.\<close>

datatype call =
    Analyze "string list" "nat list" js
  | Summarize "js list"

definition run_call :: "'f env \<Rightarrow> call \<Rightarrow> world \<Rightarrow> world" where
  "run_call env c w =
     (case c of
        Analyze frames frameIndices prevFrameDesc \<Rightarrow>
          snd (analyzeFrames env frames frameIndices prevFrameDesc w)
      | Summarize frameDescriptions \<Rightarrow> snd (generateSummary env frameDescriptions w))"

definition run_calls :: "'f env \<Rightarrow> call list \<Rightarrow> world \<Rightarrow> world" where
  "run_calls env cs w = foldl (\<lambda>w c. run_call env c w) w cs"

section \<open>The summary schema, as the interface \<open>VideoAnalysisSummary\<close> declares it\<close>

definition field :: "js \<Rightarrow> string \<Rightarrow> js" where
  "field v p =
     (case v of
        JObj kvs \<Rightarrow> (case map_of kvs p of None \<Rightarrow> Undefined | Some x \<Rightarrow> x)
      | _ \<Rightarrow> Undefined)"

definition is_object :: "js \<Rightarrow> bool" where
  "is_object v = (case v of JObj kvs \<Rightarrow> True | _ \<Rightarrow> False)"

definition is_string :: "js \<Rightarrow> bool" where
  "is_string v = (case v of JStr s \<Rightarrow> True | _ \<Rightarrow> False)"

definition is_string_array :: "js \<Rightarrow> bool" where
  "is_string_array v = (case v of JArr xs \<Rightarrow> list_all is_string xs | _ \<Rightarrow> False)"

definition is_key_event :: "js \<Rightarrow> bool" where
  "is_key_event v =
     (is_object v \<and> is_string (field v ''description'')
      \<and> List.member [JStr ''HIGH'', JStr ''MEDIUM'', JStr ''LOW''] (field v ''significance''))"

definition is_VideoAnalysisSummary :: "js \<Rightarrow> bool" where
  "is_VideoAnalysisSummary v =
     (is_object v
      \<and> is_string (field v ''summary'')
      \<and> (case field v ''key_events'' of JArr es \<Rightarrow> list_all is_key_event es | _ \<Rightarrow> False)
      \<and> is_object (field v ''objects_involved'')
      \<and> (field (field v ''objects_involved'') ''people'' = Undefined
          \<or> is_string_array (field (field v ''objects_involved'') ''people''))
      \<and> is_string_array (field (field v ''objects_involved'') ''items'')
      \<and> is_object (field v ''analysis'')
      \<and> is_string (field (field v ''analysis'') ''pattern'')
      \<and> is_string_array (field (field v ''analysis'') ''anomalies'')
      \<and> is_string (field (field v ''analysis'') ''risk_assessment''))"

section \<open>Answers whose parsed value the log line can read\<close>

text \<open>
  The log line of \<open>generateFrameDescriptions\<close> reads \<open>result.key_events.length\<close>. A parsed
  value is \<open>loggable\<close> when that read does not throw, and a service is \<open>conforming\<close> when
  every text that parses gives such a value.
\<close>

definition loggable :: "js \<Rightarrow> bool" where
  "loggable v =
     (case js_get v ''key_events'' of
        Inl e \<Rightarrow> False
      | Inr k \<Rightarrow> (case js_get k ''length'' of Inl e \<Rightarrow> False | Inr n \<Rightarrow> True))"

definition conforming :: "'f env \<Rightarrow> bool" where
  "conforming env = (\<forall>t v. json_parse env t = Some v \<longrightarrow> loggable v)"

section \<open>Concrete inputs\<close>

definition frames3 :: SampledFrames where
  "frames3 = \<lparr> framePaths = [''f1'', ''f2'', ''f3''], indices = [0, 30, 60] \<rparr>"

definition frames10 :: SampledFrames where
  "frames10 =
     \<lparr> framePaths = [''f01'', ''f02'', ''f03'', ''f04'', ''f05'', ''f06'', ''f07'', ''f08'',
                      ''f09'', ''f10''],
       indices = [0, 30, 60, 90, 120, 150, 180, 210, 240, 270] \<rparr>"

text \<open>
  A run on a three-second video sampled once a second: three frames, windows of two
  frames that move by one frame, so two windows and three calls of the service. The
  numbers are integers here (30 frames per second, a resize ratio of 1), so the
  floating-point operations of the environment are exact on them.
\<close>

definition stream0 :: video_stream where
  "stream0 =
     \<lparr> codec_type = Some ''video'', r_frame_rate = Some ''30/1'', nb_frames = Some ''90'',
       duration = Some ''3.000000'', width = Some 640, height = Some 480 \<rparr>"

definition config0 :: "int VideoProcessingConfig" where
  "config0 =
     \<lparr> sampleMsec = 1000, resizeRatio = 1, frameBatchSize = 2, slidingWindowSize = 1,
       outputDir = ''workspace'' \<rparr>"

text \<open>The texts the service answers with, and what \<open>JSON.parse\<close> makes of each.\<close>

definition text_window1 :: string where
  \<open>text_window1 = ''{"sequence_summary":"a person enters","key_events":[]}''\<close>

definition text_window2 :: string where
  \<open>text_window2 = ''{"sequence_summary":"the person leaves","key_events":[]}''\<close>

definition text_no_events :: string where
  \<open>text_no_events = ''{"sequence_summary":"a person enters"}''\<close>

definition text_summary :: string where
  \<open>text_summary = ''{"summary":"s","key_events":[],"objects_involved":{"items":[]},"analysis":{"pattern":"p","anomalies":[],"risk_assessment":"r"}}''\<close>

definition text_empty_object :: string where
  \<open>text_empty_object = ''{}''\<close>

definition json_parse0 :: "string \<Rightarrow> js option" where
  "json_parse0 t =
     (if t = text_window1
      then Some (JObj [(''sequence_summary'', JStr ''a person enters''),
                       (''key_events'', JArr [])])
      else if t = text_window2
      then Some (JObj [(''sequence_summary'', JStr ''the person leaves''),
                       (''key_events'', JArr [])])
      else if t = text_no_events
      then Some (JObj [(''sequence_summary'', JStr ''a person enters'')])
      else if t = text_summary
      then Some (JObj [(''summary'', JStr ''s''), (''key_events'', JArr []),
                       (''objects_involved'', JObj [(''items'', JArr [])]),
                       (''analysis'', JObj [(''pattern'', JStr ''p''),
                                            (''anomalies'', JArr []),
                                            (''risk_assessment'', JStr ''r'')])])
      else if t = text_empty_object then Some (JObj [])
      else None)"

definition answer :: "nat \<Rightarrow> nat \<Rightarrow> string \<Rightarrow> send_result" where
  "answer i out t =
     Body \<lparr> body_usage = Some \<lparr> input_tokens = Some i, output_tokens = Some out \<rparr>,
            content_text = Some t \<rparr>"

text \<open>A service that answers call number \<open>k\<close> with the \<open>k\<close>-th entry of a list.\<close>

definition serve :: "send_result list \<Rightarrow> nat \<Rightarrow> request \<Rightarrow> send_result" where
  "serve rs k r = (if k < length rs then rs ! k else SendError)"

definition env0 :: "send_result list \<Rightarrow> int env" where
  "env0 rs =
     \<lparr> url_basename = (\<lambda>u. if u = ''https://example.com/video.mp4''
                            then Some ''video.mp4'' else None),
       http_ok = (\<lambda>u. True),
       ffprobe = (\<lambda>p. Some [stream0]),
       ffmpeg_extract = (\<lambda>p interval ratio.
          ([''frame_000001.jpg'', ''frame_000002.jpg'', ''frame_000003.jpg''], True)),
       readFileSync = (\<lambda>p. Some ''AAAA''),
       send = serve rs,
       json_parse = json_parse0,
       fzero = 0,
       rate_to_fps = (\<lambda>r. if r = ''30/1'' then 30 else 0),
       truthy = (\<lambda>x. x \<noteq> 0),
       is_nan = (\<lambda>x. False),
       ceil_duration_times = (\<lambda>d f. if d = ''3.000000'' then 3 * f else 0),
       frame_interval = (\<lambda>ms f. max 1 ((ms * f) div 1000)),
       round_scaled = (\<lambda>n r. int n * r) \<rparr>"

definition analyzer0 :: "int VideoAnalyzer" where
  "analyzer0 = fst (new_VideoAnalyzer ''https://example.com/video.mp4'' config0 ''/work/tmp_1''
                      Map.empty)"

definition world0 :: world where
  "world0 = snd (new_VideoAnalyzer ''https://example.com/video.mp4'' config0 ''/work/tmp_1''
                   (Map.empty :: fs) :: int VideoAnalyzer \<times> world)"

text \<open>The two windows of that run, and the same analyzer with windows of eight frames.\<close>

definition windows0 :: "SampledFrames list" where
  "windows0 =
     [\<lparr> framePaths = [''workspace/frames/frame_000001.jpg'',
                       ''workspace/frames/frame_000002.jpg''],
        indices = [1, 2] \<rparr>,
      \<lparr> framePaths = [''workspace/frames/frame_000002.jpg'',
                       ''workspace/frames/frame_000003.jpg''],
        indices = [2, 3] \<rparr>]"

definition sampled0 :: SampledFrames where
  "sampled0 =
     \<lparr> framePaths = [''workspace/frames/frame_000001.jpg'',
                      ''workspace/frames/frame_000002.jpg'',
                      ''workspace/frames/frame_000003.jpg''],
       indices = [1, 2, 3] \<rparr>"

definition videoInfo0 :: "int VideoInfo" where
  "videoInfo0 =
     \<lparr> totalFrameCount = Exact 90, sampledCount = 3, frameWidth = 640, frameHeight = 480 \<rparr>"

definition analyzer8 :: "int VideoAnalyzer" where
  "analyzer8 = analyzer0\<lparr>config := config0\<lparr>frameBatchSize := 8\<rparr>\<rparr>"

text \<open>A video stream whose metadata has no \<open>nb_frames\<close>: ten seconds at 30 frames a second.\<close>

definition stream_no_count :: video_stream where
  "stream_no_count =
     \<lparr> codec_type = Some ''video'', r_frame_rate = Some ''30/1'', nb_frames = None,
       duration = Some ''10.000000'', width = Some 640, height = Some 480 \<rparr>"

section \<open>Properties of the segmentation\<close>

lemma upt_Suc_shift: "[0..<Suc n] = 0 # map Suc [0..<n]"
  by (simp add: upt_conv_Cons map_Suc_upt del: upt_Suc)

lemma window_loop_result:
  assumes "1 \<le> slideSize"
  shows "window_loop sf batchSize slideSize lastStart i windows =
           Some (windows @ map (\<lambda>k. window_at sf batchSize (i + k * slideSize))
                   [0..<(if i \<le> lastStart then (lastStart - i) div slideSize + 1 else 0)])"
proof (induction "Suc lastStart - i" arbitrary: i windows rule: less_induct)
  case less
  show ?case
  proof (cases "i \<le> lastStart")
    case False
    then show ?thesis
      by (subst window_loop.simps) simp
  next
    case True
    note ile = True
    let ?j = "i + slideSize"
    let ?n = "(if ?j \<le> lastStart then (lastStart - ?j) div slideSize + 1 else 0)"
    have smaller: "Suc lastStart - ?j < Suc lastStart - i"
      using ile assms by arith
    have count: "(lastStart - i) div slideSize + 1 = Suc ?n"
    proof (cases "?j \<le> lastStart")
      case True
      then have eq: "lastStart - i = (lastStart - ?j) + slideSize" by arith
      have "((lastStart - ?j) + slideSize) div slideSize = (lastStart - ?j) div slideSize + 1"
        using assms by (intro div_add_self2) simp
      then have "(lastStart - i) div slideSize = (lastStart - ?j) div slideSize + 1"
        by (simp only: eq)
      with True show ?thesis by (simp only: if_True Suc_eq_plus1)
    next
      case False
      then have "lastStart - i < slideSize" using ile by arith
      with False show ?thesis by simp
    qed
    have step: "window_loop sf batchSize slideSize lastStart i windows =
                  window_loop sf batchSize slideSize lastStart ?j
                    (windows @ [window_at sf batchSize i])"
      using ile by (subst window_loop.simps) simp
    have "window_loop sf batchSize slideSize lastStart ?j (windows @ [window_at sf batchSize i]) =
            Some ((windows @ [window_at sf batchSize i])
                    @ map (\<lambda>k. window_at sf batchSize (?j + k * slideSize)) [0..<?n])"
      by (rule less.hyps [OF smaller])
    moreover have "map (\<lambda>k. window_at sf batchSize (i + k * slideSize)) [0..<Suc ?n] =
                     window_at sf batchSize i
                       # map (\<lambda>k. window_at sf batchSize (?j + k * slideSize)) [0..<?n]"
      by (simp only: upt_Suc_shift list.map map_map o_def)
         (simp add: add.assoc add.commute)
    ultimately show ?thesis
      using ile step count by simp
  qed
qed

lemma window_loop_stuck:
  assumes "window_loop sf batchSize slideSize lastStart i windows = Some r"
  shows "slideSize = 0 \<longrightarrow> lastStart < i"
proof (rule window_loop.raw_induct
         [where P = "\<lambda>sf batchSize slideSize lastStart i windows r. slideSize = 0 \<longrightarrow> lastStart < i",
          OF _ assms], goal_cases)
  case (1 loop sf batchSize slideSize lastStart i windows r)
  show ?case
  proof
    assume z: "slideSize = 0"
    show "lastStart < i"
    proof (rule ccontr)
      assume "\<not> lastStart < i"
      then have le: "i \<le> lastStart" by simp
      with 1(2) have "loop sf batchSize slideSize lastStart (i + slideSize)
                        (windows @ [window_at sf batchSize i]) = Some r"
        by simp
      from 1(1) [OF this] z have "lastStart < i + slideSize" by simp
      with z le show False by simp
    qed
  qed
qed

lemma window_loop_diverges:
  "i \<le> lastStart \<Longrightarrow> window_loop sf batchSize 0 lastStart i windows = None"
  using window_loop_stuck [of sf batchSize 0 lastStart i windows]
  by (cases "window_loop sf batchSize 0 lastStart i windows") auto

lemma recommended_eq:
  "recommended totalFrames batchSize =
     filter (\<lambda>s. (totalFrames - batchSize) mod s = 0) [1..<batchSize]"
proof -
  have "map (\<lambda>i. i + 1) [0..<batchSize - 1] = [1..<batchSize]"
    by (cases batchSize) (simp_all add: map_Suc_upt del: upt_Suc)
  then show ?thesis
    unfolding recommended_def by (auto simp: js_rem_def intro!: filter_cong)
qed

lemma slice_take_drop:
  "slice xs i (i + b) = take b (drop i xs)"
  by (simp add: slice_def Let_def min_def)


lemma applySlidingWindow_ok:
  assumes "batchSize \<le> length (framePaths sf)" and "1 \<le> slideSize"
  shows "applySlidingWindow sf batchSize slideSize =
           Some (Inr (map (\<lambda>k. window_at sf batchSize (k * slideSize))
                        [0..<(length (framePaths sf) - batchSize) div slideSize + 1]),
                 [LogApplying]
                 @ (if (length (framePaths sf) - batchSize) mod slideSize \<noteq> 0
                    then [WarnOmitted (Some ((length (framePaths sf) - batchSize) mod slideSize)),
                          WarnRecommended
                            (filter (\<lambda>s. (length (framePaths sf) - batchSize) mod s = 0)
                               [1..<batchSize])]
                    else [])
                 @ [LogCreated batchSize slideSize
                      ((length (framePaths sf) - batchSize) div slideSize + 1)])"
proof -
  have loop: "window_loop sf batchSize slideSize (length (framePaths sf) - batchSize) 0 [] =
                Some (map (\<lambda>k. window_at sf batchSize (k * slideSize))
                        [0..<(length (framePaths sf) - batchSize) div slideSize + 1])"
    using window_loop_result [OF assms(2), of sf batchSize "length (framePaths sf) - batchSize" 0 "[]"]
    by simp
  have rem: "js_rem (length (framePaths sf) - batchSize) slideSize =
               Some ((length (framePaths sf) - batchSize) mod slideSize)"
    using assms(2) by (simp add: js_rem_def)
  show ?thesis
    using assms(1)
    by (simp add: applySlidingWindow_def Let_def loop rem recommended_eq del: upt_Suc)
qed

lemma window_count_bound:
  assumes "batchSize \<le> (n::nat)" and "k < (n - batchSize) div slideSize + 1"
  shows "k * slideSize + batchSize \<le> n"
proof -
  have "k \<le> (n - batchSize) div slideSize" using assms(2) by simp
  then have "k * slideSize \<le> (n - batchSize) div slideSize * slideSize"
    by (rule mult_le_mono1)
  also have "\<dots> \<le> n - batchSize" by simp
  finally show ?thesis using assms(1) by simp
qed

text \<open>
  Claim C1. For a frame list of \<open>n\<close> frames (paths and indices of the same length),
  \<open>batchSize \<le> n\<close> and \<open>slideSize \<ge> 1\<close>, \<open>applySlidingWindow\<close> returns exactly
  \<open>(n - batchSize) div slideSize + 1\<close> windows; window \<open>k\<close> is the slice of the input that
  starts at index \<open>k * slideSize\<close>, for paths and indices alike, and it has exactly
  \<open>batchSize\<close> frames.
\<close>

theorem applySlidingWindow_windows:
  assumes "length (indices sf) = length (framePaths sf)"
    and "batchSize \<le> length (framePaths sf)"
    and "1 \<le> slideSize"
  shows "\<exists>windows out.
           applySlidingWindow sf batchSize slideSize = Some (Inr windows, out)
         \<and> length windows = (length (framePaths sf) - batchSize) div slideSize + 1
         \<and> (\<forall>k<length windows.
               framePaths (windows ! k) = take batchSize (drop (k * slideSize) (framePaths sf))
             \<and> indices (windows ! k) = take batchSize (drop (k * slideSize) (indices sf))
             \<and> length (framePaths (windows ! k)) = batchSize
             \<and> length (indices (windows ! k)) = batchSize
             \<and> (\<forall>j<batchSize.
                   framePaths (windows ! k) ! j = framePaths sf ! (k * slideSize + j)
                 \<and> indices (windows ! k) ! j = indices sf ! (k * slideSize + j)))"
proof -
  let ?n = "length (framePaths sf)"
  let ?c = "(?n - batchSize) div slideSize + 1"
  let ?ws = "map (\<lambda>k. window_at sf batchSize (k * slideSize)) [0..<?c]"
  obtain out where run: "applySlidingWindow sf batchSize slideSize = Some (Inr ?ws, out)"
    using applySlidingWindow_ok [OF assms(2,3)] by blast
  have len: "length ?ws = ?c" by simp
  have each: "framePaths (?ws ! k) = take batchSize (drop (k * slideSize) (framePaths sf))
            \<and> indices (?ws ! k) = take batchSize (drop (k * slideSize) (indices sf))
            \<and> length (framePaths (?ws ! k)) = batchSize
            \<and> length (indices (?ws ! k)) = batchSize
            \<and> (\<forall>j<batchSize.
                  framePaths (?ws ! k) ! j = framePaths sf ! (k * slideSize + j)
                \<and> indices (?ws ! k) ! j = indices sf ! (k * slideSize + j))"
    if k: "k < ?c" for k
  proof -
    have fits: "k * slideSize + batchSize \<le> ?n"
      using window_count_bound [OF assms(2) k] .
    have "k < length [0..<?c]" using k by (simp del: upt_Suc)
    then have "?ws ! k = window_at sf batchSize ([0..<?c] ! k * slideSize)"
      by (rule nth_map)
    moreover have "[0..<?c] ! k = k" using k by (simp del: upt_Suc)
    ultimately have nth: "?ws ! k = window_at sf batchSize (k * slideSize)"
      by (simp only:)
    have "framePaths (window_at sf batchSize (k * slideSize)) =
            take batchSize (drop (k * slideSize) (framePaths sf))"
      and "indices (window_at sf batchSize (k * slideSize)) =
            take batchSize (drop (k * slideSize) (indices sf))"
      by (simp_all add: window_at_def slice_take_drop)
    moreover have "length (take batchSize (drop (k * slideSize) (framePaths sf))) = batchSize"
      and "length (take batchSize (drop (k * slideSize) (indices sf))) = batchSize"
      using fits assms(1) by simp_all
    moreover have "\<forall>j<batchSize.
        take batchSize (drop (k * slideSize) (framePaths sf)) ! j = framePaths sf ! (k * slideSize + j)
      \<and> take batchSize (drop (k * slideSize) (indices sf)) ! j = indices sf ! (k * slideSize + j)"
      using fits assms(1) by simp
    ultimately show ?thesis
      by (simp only: nth)
  qed
  have all: "\<forall>k<length ?ws.
               framePaths (?ws ! k) = take batchSize (drop (k * slideSize) (framePaths sf))
             \<and> indices (?ws ! k) = take batchSize (drop (k * slideSize) (indices sf))
             \<and> length (framePaths (?ws ! k)) = batchSize
             \<and> length (indices (?ws ! k)) = batchSize
             \<and> (\<forall>j<batchSize.
                   framePaths (?ws ! k) ! j = framePaths sf ! (k * slideSize + j)
                 \<and> indices (?ws ! k) ! j = indices sf ! (k * slideSize + j))"
  proof (intro allI impI)
    fix k
    assume "k < length ?ws"
    then have "k < ?c" by (simp only: len)
    then show "framePaths (?ws ! k) = take batchSize (drop (k * slideSize) (framePaths sf))
             \<and> indices (?ws ! k) = take batchSize (drop (k * slideSize) (indices sf))
             \<and> length (framePaths (?ws ! k)) = batchSize
             \<and> length (indices (?ws ! k)) = batchSize
             \<and> (\<forall>j<batchSize.
                   framePaths (?ws ! k) ! j = framePaths sf ! (k * slideSize + j)
                 \<and> indices (?ws ! k) ! j = indices sf ! (k * slideSize + j))"
      by (rule each)
  qed
  from run len all show ?thesis by blast
qed

text \<open>
  Claim C4. For \<open>batchSize \<le> n\<close> and \<open>slideSize \<ge> 1\<close> the segmentation returns its window
  list, never an error: the \<open>(n - batchSize) div slideSize + 1\<close> windows, window \<open>k\<close> being
  the \<open>batchSize\<close> paths and indices from position \<open>k * slideSize\<close> on. When
  \<open>(n - batchSize) mod slideSize\<close> is not zero it reports that number of uncovered frames
  and the slide sizes \<open>s\<close> from 1 to \<open>batchSize - 1\<close> with \<open>(n - batchSize) mod s = 0\<close>, as two
  warning lines; when it is zero there is no warning.
\<close>

theorem applySlidingWindow_coverage_warning:
  assumes "batchSize \<le> length (framePaths sf)" and "1 \<le> slideSize"
  shows "applySlidingWindow sf batchSize slideSize =
           Some (Inr (map (\<lambda>k. \<lparr> framePaths =
                                   take batchSize (drop (k * slideSize) (framePaths sf)),
                                 indices =
                                   take batchSize (drop (k * slideSize) (indices sf)) \<rparr>)
                        [0..<(length (framePaths sf) - batchSize) div slideSize + 1]),
                 if (length (framePaths sf) - batchSize) mod slideSize \<noteq> 0
                 then [LogApplying,
                       WarnOmitted (Some ((length (framePaths sf) - batchSize) mod slideSize)),
                       WarnRecommended
                         (filter (\<lambda>s. (length (framePaths sf) - batchSize) mod s = 0)
                            [1..<batchSize]),
                       LogCreated batchSize slideSize
                         ((length (framePaths sf) - batchSize) div slideSize + 1)]
                 else [LogApplying,
                       LogCreated batchSize slideSize
                         ((length (framePaths sf) - batchSize) div slideSize + 1)])"
proof -
  have each: "window_at sf batchSize (k * slideSize) =
                \<lparr> framePaths = take batchSize (drop (k * slideSize) (framePaths sf)),
                  indices = take batchSize (drop (k * slideSize) (indices sf)) \<rparr>" for k
    by (simp add: window_at_def slice_take_drop)
  show ?thesis
    using applySlidingWindow_ok [OF assms] by (simp add: each del: upt_Suc)
qed

text \<open>
  Claim C10. For \<open>batchSize \<le> n\<close>: with \<open>slideSize \<ge> 1\<close> the window loop ends from every
  start index and \<open>applySlidingWindow\<close> returns; with \<open>slideSize = 0\<close>, which nothing in
  the function rejects, the loop never ends.
\<close>

theorem applySlidingWindow_termination:
  assumes "batchSize \<le> length (framePaths sf)"
  shows "(1 \<le> slideSize \<longrightarrow>
            (\<forall>i windows. \<exists>r. window_loop sf batchSize slideSize
                                (length (framePaths sf) - batchSize) i windows = Some r)
          \<and> (\<exists>r. applySlidingWindow sf batchSize slideSize = Some r))
       \<and> (slideSize = 0 \<longrightarrow> applySlidingWindow sf batchSize slideSize = None)"
proof (intro conjI impI allI)
  fix i windows
  assume "1 \<le> slideSize"
  then show "\<exists>r. window_loop sf batchSize slideSize
                    (length (framePaths sf) - batchSize) i windows = Some r"
    using window_loop_result by blast
next
  assume "1 \<le> slideSize"
  then show "\<exists>r. applySlidingWindow sf batchSize slideSize = Some r"
    using applySlidingWindow_ok [OF assms] by blast
next
  assume "slideSize = 0"
  then show "applySlidingWindow sf batchSize slideSize = None"
    using assms
    by (simp add: applySlidingWindow_def Let_def window_loop_diverges)
qed

theorem applySlidingWindow_windows_witness:
  "length (indices frames3) = length (framePaths frames3)
   \<and> 2 \<le> length (framePaths frames3) \<and> (1::nat) \<le> 1
   \<and> (\<exists>windows out. applySlidingWindow frames3 2 1 = Some (Inr windows, out)
         \<and> length windows = 2
         \<and> framePaths (windows ! 1) = [''f2'', ''f3'']
         \<and> indices (windows ! 1) = [30, 60])"
proof -
  have h1: "length (indices frames3) = length (framePaths frames3)"
    by (simp add: frames3_def)
  have h2: "2 \<le> length (framePaths frames3)" by (simp add: frames3_def)
  have h3: "(1::nat) \<le> 1" by simp
  from applySlidingWindow_windows [OF h1 h2 h3]
  obtain windows out where
    run: "applySlidingWindow frames3 2 1 = Some (Inr windows, out)"
    and len: "length windows = (length (framePaths frames3) - 2) div 1 + 1"
    and each: "\<forall>k<length windows.
                 framePaths (windows ! k) = take 2 (drop (k * 1) (framePaths frames3))
               \<and> indices (windows ! k) = take 2 (drop (k * 1) (indices frames3))
               \<and> length (framePaths (windows ! k)) = 2
               \<and> length (indices (windows ! k)) = 2
               \<and> (\<forall>j<2. framePaths (windows ! k) ! j = framePaths frames3 ! (k * 1 + j)
                     \<and> indices (windows ! k) ! j = indices frames3 ! (k * 1 + j))"
    by blast
  have len2: "length windows = 2" using len by (simp add: frames3_def)
  then have "framePaths (windows ! 1) = [''f2'', ''f3'']"
    and "indices (windows ! 1) = [30, 60]"
    using each by (simp_all add: frames3_def)
  with h1 h2 run len2 show ?thesis by simp
qed



theorem applySlidingWindow_coverage_warning_witness:
  "7 \<le> length (framePaths frames10) \<and> (1::nat) \<le> 2
   \<and> applySlidingWindow frames10 7 2 =
       Some (Inr [\<lparr> framePaths = [''f01'', ''f02'', ''f03'', ''f04'', ''f05'', ''f06'', ''f07''],
                    indices = [0, 30, 60, 90, 120, 150, 180] \<rparr>,
                  \<lparr> framePaths = [''f03'', ''f04'', ''f05'', ''f06'', ''f07'', ''f08'', ''f09''],
                    indices = [60, 90, 120, 150, 180, 210, 240] \<rparr>],
             [LogApplying, WarnOmitted (Some 1), WarnRecommended [1, 3], LogCreated 7 2 2])"
proof -
  have h1: "7 \<le> length (framePaths frames10)" by (simp add: frames10_def)
  have h2: "(1::nat) \<le> 2" by simp
  have windows:
    "map (\<lambda>k. \<lparr> framePaths = take 7 (drop (k * 2) (framePaths frames10)),
                indices = take 7 (drop (k * 2) (indices frames10)) \<rparr>)
       [0..<(length (framePaths frames10) - 7) div 2 + 1] =
     [\<lparr> framePaths = [''f01'', ''f02'', ''f03'', ''f04'', ''f05'', ''f06'', ''f07''],
        indices = [0, 30, 60, 90, 120, 150, 180] \<rparr>,
      \<lparr> framePaths = [''f03'', ''f04'', ''f05'', ''f06'', ''f07'', ''f08'', ''f09''],
        indices = [60, 90, 120, 150, 180, 210, 240] \<rparr>]"
    by code_simp
  have lines:
    "(if (length (framePaths frames10) - 7) mod 2 \<noteq> 0
      then [LogApplying,
            WarnOmitted (Some ((length (framePaths frames10) - 7) mod 2)),
            WarnRecommended
              (filter (\<lambda>s. (length (framePaths frames10) - 7) mod s = 0) [1..<7]),
            LogCreated 7 2 ((length (framePaths frames10) - 7) div 2 + 1)]
      else [LogApplying, LogCreated 7 2 ((length (framePaths frames10) - 7) div 2 + 1)]) =
     [LogApplying, WarnOmitted (Some 1), WarnRecommended [1, 3], LogCreated 7 2 2]"
    by code_simp
  have "applySlidingWindow frames10 7 2 =
          Some (Inr [\<lparr> framePaths = [''f01'', ''f02'', ''f03'', ''f04'', ''f05'', ''f06'', ''f07''],
                       indices = [0, 30, 60, 90, 120, 150, 180] \<rparr>,
                     \<lparr> framePaths = [''f03'', ''f04'', ''f05'', ''f06'', ''f07'', ''f08'', ''f09''],
                       indices = [60, 90, 120, 150, 180, 210, 240] \<rparr>],
                [LogApplying, WarnOmitted (Some 1), WarnRecommended [1, 3],
                 LogCreated 7 2 2])"
    using applySlidingWindow_coverage_warning [OF h1 h2] by (simp only: windows lines)
  with h1 h2 show ?thesis by (simp only: simp_thms)
qed

theorem applySlidingWindow_termination_witness:
  "2 \<le> length (framePaths frames3)
   \<and> (\<exists>r. applySlidingWindow frames3 2 1 = Some r)
   \<and> applySlidingWindow frames3 2 0 = None"
proof -
  have h: "2 \<le> length (framePaths frames3)" by (simp add: frames3_def)
  from applySlidingWindow_termination [OF h, of 1]
       applySlidingWindow_termination [OF h, of 0]
  show ?thesis using h by simp
qed

section \<open>Properties of the token totals\<close>

lemma sent_invokeModel:
  "sent (snd (invokeModel env req w)) = sent w @ [req]"
  by (simp add: invokeModel_def Let_def split: send_result.splits option.splits)

lemma fs_invokeModel:
  "fs (snd (invokeModel env req w)) = fs w"
  by (simp add: invokeModel_def Let_def split: send_result.splits option.splits)

lemma input_invokeModel:
  "inputTokens (tokens (snd (invokeModel env req w))) =
     inputTokens (tokens w) + fst (reported (send env (length (sent w)) req))"
  by (simp add: invokeModel_def Let_def reported_def split: send_result.splits option.splits)

lemma output_invokeModel:
  "outputTokens (tokens (snd (invokeModel env req w))) =
     outputTokens (tokens w) + snd (reported (send env (length (sent w)) req))"
  by (simp add: invokeModel_def Let_def reported_def split: send_result.splits option.splits)

lemma total_invokeModel:
  "totalTokens (tokens w) = inputTokens (tokens w) + outputTokens (tokens w) \<Longrightarrow>
   totalTokens (tokens (snd (invokeModel env req w))) =
     inputTokens (tokens (snd (invokeModel env req w)))
       + outputTokens (tokens (snd (invokeModel env req w)))"
  by (simp add: invokeModel_def Let_def split: send_result.splits option.splits)

lemma snd_analyzeFrames:
  "snd (analyzeFrames env frames idx prev w) =
     snd (invokeModel env
            (AnalyzeReq frames (length idx) (if prev = Undefined then JStr ''None'' else prev)) w)"
  by (simp add: analyzeFrames_def Let_def split: prod.splits sum.splits option.splits)

lemma snd_generateSummary:
  "snd (generateSummary env ds w) = snd (invokeModel env (SummaryReq ds) w)"
  by (simp add: generateSummary_def split: prod.splits sum.splits option.splits)

lemma run_call_invoke:
  "\<exists>req. run_call env c w = snd (invokeModel env req w)"
  by (cases c) (auto simp: run_call_def snd_analyzeFrames snd_generateSummary)

lemma replies_snoc:
  assumes "sent w' = sent w @ [req]"
  shows "replies env w' = replies env w @ [send env (length (sent w)) req]"
  using assms by (simp add: replies_def nth_append)

lemma accounted_new: "accounted env (new_BedrockClient f)"
  by (simp add: accounted_def new_BedrockClient_def replies_def)

lemma accounted_invokeModel:
  assumes "accounted env w"
  shows "accounted env (snd (invokeModel env req w))"
proof -
  let ?w' = "snd (invokeModel env req w)"
  have r: "replies env ?w' = replies env w @ [send env (length (sent w)) req]"
    by (rule replies_snoc) (rule sent_invokeModel)
  have t: "totalTokens (tokens ?w') = inputTokens (tokens ?w') + outputTokens (tokens ?w')"
    using assms by (intro total_invokeModel) (simp add: accounted_def)
  show ?thesis
    using assms t
    by (simp add: accounted_def r input_invokeModel output_invokeModel)
qed

lemma accounted_run_call:
  "accounted env w \<Longrightarrow> accounted env (run_call env c w)"
  using run_call_invoke [of env c w] accounted_invokeModel [of env w] by auto

lemma accounted_run_calls:
  "accounted env w \<Longrightarrow> accounted env (run_calls env cs w)"
  unfolding run_calls_def
  by (induction cs arbitrary: w) (simp_all add: accounted_run_call)

lemma length_sent_run_calls:
  "length (sent (run_calls env cs w)) = length (sent w) + length cs"
  unfolding run_calls_def
proof (induction cs arbitrary: w)
  case Nil
  show ?case by simp
next
  case (Cons c cs)
  obtain req where "run_call env c w = snd (invokeModel env req w)"
    using run_call_invoke by blast
  then have "length (sent (run_call env c w)) = Suc (length (sent w))"
    by (simp add: sent_invokeModel)
  with Cons.IH [of "run_call env c w"] show ?case by simp
qed

lemma monotone_run_call:
  "inputTokens (tokens w) \<le> inputTokens (tokens (run_call env c w))
   \<and> outputTokens (tokens w) \<le> outputTokens (tokens (run_call env c w))"
proof -
  obtain req where "run_call env c w = snd (invokeModel env req w)"
    using run_call_invoke by blast
  then show ?thesis by (simp add: input_invokeModel output_invokeModel)
qed

lemma analyzeFrames_parse_failure:
  assumes "send env (length (sent w))
             (AnalyzeReq frames (length idx) (if prev = Undefined then JStr ''None'' else prev))
           = Body b"
    and "content_text b = Some t" and "json_parse env t = None"
  shows "fst (analyzeFrames env frames idx prev w) = Inl SyntaxError"
  using assms
  by (simp add: analyzeFrames_def invokeModel_def Let_def split: option.splits)

text \<open>
  Claim C6. After any sequence of calls of the client, started on a new client, the
  totals that \<open>getTokenUsage\<close> hands out are the sums of the input and output counts that
  the answers to these calls reported (nothing for an answer without \<open>usage\<close>), and the
  total is their sum; one more call never lowers any of the three; and a call of
  \<open>analyzeFrames\<close> whose text then fails \<open>JSON.parse\<close> has added what its answer reported.
\<close>

theorem token_totals_accounted:
  fixes env :: "'f env" and calls :: "call list" and f :: fs
  defines "w \<equiv> run_calls env calls (new_BedrockClient f)"
  shows "inputTokens (getTokenUsage w) = sum_list (map (\<lambda>r. fst (reported r)) (replies env w))
       \<and> outputTokens (getTokenUsage w) = sum_list (map (\<lambda>r. snd (reported r)) (replies env w))
       \<and> totalTokens (getTokenUsage w)
           = inputTokens (getTokenUsage w) + outputTokens (getTokenUsage w)
       \<and> length (replies env w) = length calls
       \<and> inputTokens (getTokenUsage w) \<le> inputTokens (getTokenUsage (run_call env c w))
       \<and> outputTokens (getTokenUsage w) \<le> outputTokens (getTokenUsage (run_call env c w))
       \<and> totalTokens (getTokenUsage w) \<le> totalTokens (getTokenUsage (run_call env c w))
       \<and> (\<forall>frames idx prev b t.
             send env (length (sent w))
               (AnalyzeReq frames (length idx) (if prev = Undefined then JStr ''None'' else prev))
             = Body b
             \<and> content_text b = Some t \<and> json_parse env t = None
           \<longrightarrow> fst (analyzeFrames env frames idx prev w) = Inl SyntaxError
             \<and> inputTokens (getTokenUsage (snd (analyzeFrames env frames idx prev w)))
                 = inputTokens (getTokenUsage w) + fst (reported (Body b))
             \<and> outputTokens (getTokenUsage (snd (analyzeFrames env frames idx prev w)))
                 = outputTokens (getTokenUsage w) + snd (reported (Body b)))"
proof -
  have acc: "accounted env w"
    unfolding w_def by (rule accounted_run_calls) (rule accounted_new)
  have acc': "accounted env (run_call env c w)"
    using acc by (rule accounted_run_call)
  have len: "length (replies env w) = length calls"
    unfolding w_def by (simp add: replies_def length_sent_run_calls new_BedrockClient_def)
  have mono: "inputTokens (tokens w) \<le> inputTokens (tokens (run_call env c w))
            \<and> outputTokens (tokens w) \<le> outputTokens (tokens (run_call env c w))"
    by (rule monotone_run_call)
  have total: "totalTokens (tokens w) \<le> totalTokens (tokens (run_call env c w))"
    using acc acc' mono by (simp add: accounted_def)
  have parse: "fst (analyzeFrames env frames idx prev w) = Inl SyntaxError
             \<and> inputTokens (tokens (snd (analyzeFrames env frames idx prev w)))
                 = inputTokens (tokens w) + fst (reported (Body b))
             \<and> outputTokens (tokens (snd (analyzeFrames env frames idx prev w)))
                 = outputTokens (tokens w) + snd (reported (Body b))"
    if "send env (length (sent w))
          (AnalyzeReq frames (length idx) (if prev = Undefined then JStr ''None'' else prev))
        = Body b"
      and "content_text b = Some t" and "json_parse env t = None"
    for frames idx prev b t
    using that analyzeFrames_parse_failure [OF that]
    by (simp add: snd_analyzeFrames input_invokeModel output_invokeModel)
  show ?thesis
    using acc len mono total parse
    unfolding accounted_def getTokenUsage_def by blast
qed

theorem token_totals_accounted_witness:
  "send (env0 [answer 10 5 ''no json'']) 0 (AnalyzeReq [] 0 (JStr ''None''))
     = answer 10 5 ''no json''
   \<and> json_parse (env0 [answer 10 5 ''no json'']) ''no json'' = None
   \<and> fst (analyzeFrames (env0 [answer 10 5 ''no json'']) [] [] Undefined
            (new_BedrockClient Map.empty)) = Inl SyntaxError
   \<and> inputTokens (getTokenUsage (snd (analyzeFrames (env0 [answer 10 5 ''no json'']) [] []
                                        Undefined (new_BedrockClient Map.empty)))) = 10
   \<and> outputTokens (getTokenUsage (snd (analyzeFrames (env0 [answer 10 5 ''no json'']) [] []
                                         Undefined (new_BedrockClient Map.empty)))) = 5"
proof -
  let ?env = "env0 [answer 10 5 ''no json'']"
  have w: "run_calls ?env [] (new_BedrockClient Map.empty) = new_BedrockClient Map.empty"
    by (simp add: run_calls_def)
  have s: "send ?env (length (sent (new_BedrockClient Map.empty)))
             (AnalyzeReq [] (length ([]::nat list))
                (if Undefined = Undefined then JStr ''None'' else Undefined))
           = Body \<lparr> body_usage = Some \<lparr> input_tokens = Some 10, output_tokens = Some 5 \<rparr>,
                    content_text = Some ''no json'' \<rparr>"
    by (simp add: env0_def serve_def answer_def new_BedrockClient_def)
  have p: "json_parse ?env ''no json'' = None"
    by (simp add: env0_def json_parse0_def text_window1_def text_window2_def
                  text_no_events_def text_summary_def text_empty_object_def)
  have z: "inputTokens (getTokenUsage (new_BedrockClient Map.empty)) = 0"
    "outputTokens (getTokenUsage (new_BedrockClient Map.empty)) = 0"
    by (simp_all add: getTokenUsage_def new_BedrockClient_def)
  let ?b = "\<lparr> body_usage = Some \<lparr> input_tokens = Some 10, output_tokens = Some 5 \<rparr>,
              content_text = Some ''no json'' \<rparr>"
  have c: "content_text ?b = Some ''no json''" by simp
  note all = token_totals_accounted [of ?env "[]" Map.empty, unfolded w]
  note last = all [THEN conjunct2, THEN conjunct2, THEN conjunct2, THEN conjunct2,
                   THEN conjunct2, THEN conjunct2, THEN conjunct2, rule_format,
                   OF conjI [OF s conjI [OF c p]]]
  have r: "fst (reported (Body ?b)) = 10" "snd (reported (Body ?b)) = 5"
    by (simp_all add: reported_def or_zero_def)
  have s0: "send ?env 0 (AnalyzeReq [] 0 (JStr ''None'')) = answer 10 5 ''no json''"
    by (simp add: env0_def serve_def)
  from last
  have "fst (analyzeFrames ?env [] [] Undefined (new_BedrockClient Map.empty)) = Inl SyntaxError
      \<and> inputTokens (getTokenUsage (snd (analyzeFrames ?env [] [] Undefined
                                           (new_BedrockClient Map.empty)))) = 10
      \<and> outputTokens (getTokenUsage (snd (analyzeFrames ?env [] [] Undefined
                                            (new_BedrockClient Map.empty)))) = 5"
    by (simp only: z r add_0)
  with s0 p show ?thesis by (simp only: simp_thms)
qed

section \<open>Properties of the pipeline\<close>

lemma client_downloadVideoFromUrl:
  "sent (snd (downloadVideoFromUrl env a w)) = sent w
   \<and> tokens (snd (downloadVideoFromUrl env a w)) = tokens w"
  by (simp add: downloadVideoFromUrl_def Let_def split: option.splits)

lemma client_sampleVideoFrames:
  "sent (snd (sampleVideoFrames env a videoPath w)) = sent w
   \<and> tokens (snd (sampleVideoFrames env a videoPath w)) = tokens w"
  by (simp add: sampleVideoFrames_def Let_def split: sum.splits option.splits)

text \<open>What the sampling returns is a frame list: as many indices as paths.\<close>

lemma sampleVideoFrames_parallel:
  "sampleVideoFrames env a videoPath w = (Inr (sf, videoInfo), w') \<Longrightarrow>
   length (indices sf) = length (framePaths sf)"
  by (auto simp: sampleVideoFrames_def Let_def split: sum.splits option.splits if_splits)

lemma client_cleanup:
  "sent (cleanup a w) = sent w \<and> tokens (cleanup a w) = tokens w"
  by (simp add: cleanup_def)

lemma tempDir_cleanup: "\<not> existsSync (tempDir a) (fs (cleanup a w))"
  by (simp add: cleanup_def existsSync_def rimraf_sync_def)

lemma outside_cleanup:
  "q \<noteq> tempDir a \<Longrightarrow> \<not> prefix (tempDir a @ ''/'') q \<Longrightarrow> fs (cleanup a w) q = fs w q"
  by (simp add: cleanup_def rimraf_sync_def)

lemma applySlidingWindow_too_large:
  "length (framePaths sf) < batchSize \<Longrightarrow>
   applySlidingWindow sf batchSize slideSize =
     Some (Inl (BatchTooLarge batchSize (length (framePaths sf))), [LogApplying])"
  by (simp add: applySlidingWindow_def)

text \<open>
  Claim C5. For a frame list of \<open>n\<close> frames and \<open>batchSize > n\<close>, \<open>applySlidingWindow\<close>
  throws its configuration error and returns no window list; a run of \<open>analyze\<close> whose
  sampling yields such a frame list ends with that error, and the client has been sent
  nothing: its requests and its totals are those from before the run.
\<close>

theorem batch_larger_than_frames_fails:
  assumes "length (framePaths sf) < batchSize"
  shows "applySlidingWindow sf batchSize slideSize =
           Some (Inl (BatchTooLarge batchSize (length (framePaths sf))), [LogApplying])
       \<and> (downloadVideoFromUrl env a w = (Inr videoPath, w1)
          \<and> sampleVideoFrames env a videoPath w1 = (Inr (sf, videoInfo), w2)
          \<and> frameBatchSize (config a) = batchSize
          \<longrightarrow> analyze env a w =
                Some (Inl (BatchTooLarge batchSize (length (framePaths sf))), cleanup a w2)
            \<and> sent (cleanup a w2) = sent w
            \<and> tokens (cleanup a w2) = tokens w)"
proof (intro conjI impI)
  show "applySlidingWindow sf batchSize slideSize =
          Some (Inl (BatchTooLarge batchSize (length (framePaths sf))), [LogApplying])"
    using assms by (rule applySlidingWindow_too_large)
next
  assume run: "downloadVideoFromUrl env a w = (Inr videoPath, w1)
             \<and> sampleVideoFrames env a videoPath w1 = (Inr (sf, videoInfo), w2)
             \<and> frameBatchSize (config a) = batchSize"
  have seg: "applySlidingWindow sf batchSize (slidingWindowSize (config a)) =
               Some (Inl (BatchTooLarge batchSize (length (framePaths sf))), [LogApplying])"
    using assms by (rule applySlidingWindow_too_large)
  show "analyze env a w =
          Some (Inl (BatchTooLarge batchSize (length (framePaths sf))), cleanup a w2)"
    using run by (simp add: analyze_def analyze_try_def seg)
  have "sent w1 = sent w \<and> tokens w1 = tokens w"
    using client_downloadVideoFromUrl [of env a w] run by simp
  moreover have "sent w2 = sent w1 \<and> tokens w2 = tokens w1"
    using client_sampleVideoFrames [of env a videoPath w1] run by simp
  ultimately show "sent (cleanup a w2) = sent w" and "tokens (cleanup a w2) = tokens w"
    by (simp_all add: client_cleanup)
qed

theorem batch_larger_than_frames_fails_witness:
  "length (framePaths sampled0) < 8
   \<and> fst (downloadVideoFromUrl (env0 []) analyzer8 world0) = Inr ''/work/tmp_1/video.mp4''
   \<and> fst (sampleVideoFrames (env0 []) analyzer8 ''/work/tmp_1/video.mp4''
            (snd (downloadVideoFromUrl (env0 []) analyzer8 world0))) = Inr (sampled0, videoInfo0)
   \<and> frameBatchSize (config analyzer8) = 8
   \<and> applySlidingWindow sampled0 8 1 = Some (Inl (BatchTooLarge 8 3), [LogApplying])
   \<and> map_option fst (analyze (env0 []) analyzer8 world0) = Some (Inl (BatchTooLarge 8 3))
   \<and> sent (cleanup analyzer8
             (snd (sampleVideoFrames (env0 []) analyzer8 ''/work/tmp_1/video.mp4''
                     (snd (downloadVideoFromUrl (env0 []) analyzer8 world0))))) = []"
proof -
  let ?env = "env0 [] :: int env"
  let ?d = "downloadVideoFromUrl ?env analyzer8 world0"
  let ?s = "sampleVideoFrames ?env analyzer8 ''/work/tmp_1/video.mp4'' (snd ?d)"
  have h: "length (framePaths sampled0) < 8" by (simp add: sampled0_def)
  have n: "length (framePaths sampled0) = 3" by (simp add: sampled0_def)
  have d: "fst ?d = Inr ''/work/tmp_1/video.mp4''" by code_simp
  have s: "fst ?s = Inr (sampled0, videoInfo0)" by code_simp
  have b: "frameBatchSize (config analyzer8) = 8" by code_simp
  have w0: "sent world0 = []" by code_simp
  have d': "?d = (Inr ''/work/tmp_1/video.mp4'', snd ?d)"
    using d by (simp add: prod_eq_iff)
  have s': "?s = (Inr (sampled0, videoInfo0), snd ?s)"
    using s by (simp add: prod_eq_iff)
  note t = batch_larger_than_frames_fails [OF h, of 1 ?env analyzer8 world0
             "''/work/tmp_1/video.mp4''" "snd ?d" videoInfo0 "snd ?s"]
  from t have seg: "applySlidingWindow sampled0 8 1 =
                      Some (Inl (BatchTooLarge 8 3), [LogApplying])"
    by (simp only: n)
  from t [THEN conjunct2, rule_format, OF conjI [OF d' conjI [OF s' b]]]
  have "analyze ?env analyzer8 world0 = Some (Inl (BatchTooLarge 8 3), cleanup analyzer8 (snd ?s))"
    and "sent (cleanup analyzer8 (snd ?s)) = []"
    by (simp_all only: n w0)
  with h d s b seg show ?thesis by simp
qed

text \<open>
  Claim C7, as stated, fails: after a run of \<open>analyze\<close> that returns its summary, the frame
  images that the run extracted are still in the frames directory of the output directory,
  which did not exist before the run.
\<close>

theorem analyze_leaves_frames_counterexample:
  "fs world0 (path_join (outputDir (config analyzer0)) ''frames'') = None
   \<and> map_option fst
        (analyze (env0 [answer 10 5 text_window1, answer 11 6 text_window2,
                        answer 20 9 text_summary]) analyzer0 world0)
       = map_option Inr (json_parse0 text_summary)
   \<and> json_parse0 text_summary \<noteq> None
   \<and> fs (snd (the (analyze (env0 [answer 10 5 text_window1, answer 11 6 text_window2,
                                  answer 20 9 text_summary]) analyzer0 world0)))
        (path_join (outputDir (config analyzer0)) ''frames'')
       = Some [''frame_000001.jpg'', ''frame_000002.jpg'', ''frame_000003.jpg'']"
  by code_simp

text \<open>
  Claim C7, amended. On every way out of \<open>analyze\<close>, with a summary or with an error of any
  stage, the temporary download directory does not exist when control returns; \<open>cleanup\<close>
  removes nothing outside that directory, so what the run wrote under the output directory
  stays.
\<close>

theorem analyze_removes_tempDir:
  "(analyze env a w = Some (r, w') \<longrightarrow> \<not> existsSync (tempDir a) (fs w'))
   \<and> (q \<noteq> tempDir a \<and> \<not> prefix (tempDir a @ ''/'') q \<longrightarrow> fs (cleanup a w) q = fs w q)"
proof (intro conjI impI)
  assume "analyze env a w = Some (r, w')"
  then obtain w'' where "w' = cleanup a w''"
    by (auto simp: analyze_def split: option.splits)
  then show "\<not> existsSync (tempDir a) (fs w')"
    by (simp add: tempDir_cleanup)
next
  assume "q \<noteq> tempDir a \<and> \<not> prefix (tempDir a @ ''/'') q"
  then show "fs (cleanup a w) q = fs w q"
    by (simp add: outside_cleanup)
qed

theorem analyze_removes_tempDir_witness:
  "map_option fst (analyze (env0 []) analyzer8 world0) = Some (Inl (BatchTooLarge 8 3))
   \<and> existsSync (tempDir analyzer8) (fs world0)
   \<and> \<not> existsSync (tempDir analyzer8) (fs (snd (the (analyze (env0 []) analyzer8 world0))))"
proof -
  let ?run = "analyze (env0 [] :: int env) analyzer8 world0"
  have r: "map_option fst ?run = Some (Inl (BatchTooLarge 8 3))" by code_simp
  then obtain w' where run: "?run = Some (Inl (BatchTooLarge 8 3), w')" by auto
  have before: "existsSync (tempDir analyzer8) (fs world0)" by code_simp
  from analyze_removes_tempDir [of "env0 []" analyzer8 world0 "Inl (BatchTooLarge 8 3)" w']
  have "\<not> existsSync (tempDir analyzer8) (fs w')" using run by blast
  with r before run show ?thesis by simp
qed

lemma fst_generateVideoSummary:
  "fst (generateVideoSummary env ds w) =
     (case send env (length (sent w)) (SummaryReq ds) of
        SendError \<Rightarrow> Inl (SummaryFailed SendFailed)
      | BodyUnparseable \<Rightarrow> Inl (SummaryFailed SyntaxError)
      | Body b \<Rightarrow>
          (case content_text b of
             None \<Rightarrow> Inl (SummaryFailed TypeError)
           | Some t \<Rightarrow>
               (case json_parse env t of
                  None \<Rightarrow> Inl (SummaryFailed SyntaxError)
                | Some v \<Rightarrow> Inr v)))"
  by (simp add: generateVideoSummary_def generateSummary_def invokeModel_def Let_def
           split: send_result.splits option.splits)

lemma analyze_after_descriptions:
  assumes "downloadVideoFromUrl env a w = (Inr videoPath, w1)"
    and "sampleVideoFrames env a videoPath w1 = (Inr (sf, videoInfo), w2)"
    and "applySlidingWindow sf (frameBatchSize (config a)) (slidingWindowSize (config a))
           = Some (Inr windows, out)"
    and "generateFrameDescriptions env windows w2 = (Inr ds, w3)"
  shows "analyze env a w =
           Some (fst (generateVideoSummary env ds w3),
                 cleanup a (snd (generateVideoSummary env ds w3)))"
  using assms
  by (simp add: analyze_def analyze_try_def split: prod.splits sum.splits)

text \<open>
  Claim C9, as stated, fails: a summary text that is JSON but not a \<open>VideoAnalysisSummary\<close>
  (here the empty object) is what \<open>analyze\<close> returns.
\<close>

theorem summary_not_validated_counterexample:
  "map_option fst
     (analyze (env0 [answer 10 5 text_window1, answer 11 6 text_window2,
                     answer 20 9 text_empty_object]) analyzer0 world0)
     = Some (Inr (JObj []))
   \<and> \<not> is_VideoAnalysisSummary (JObj [])"
  by code_simp

text \<open>
  Claim C9, amended. In a run that has reached the summary: if the summary call is
  rejected, or its body or its text cannot be read, or the text is not JSON, \<open>analyze\<close>
  ends with the summary error that wraps the cause, after \<open>cleanup\<close>, and returns no
  summary; and a text that is JSON is returned as the summary, whatever value it denotes.
\<close>

theorem summary_failure_is_fatal:
  assumes "downloadVideoFromUrl env a w = (Inr videoPath, w1)"
    and "sampleVideoFrames env a videoPath w1 = (Inr (sf, videoInfo), w2)"
    and "applySlidingWindow sf (frameBatchSize (config a)) (slidingWindowSize (config a))
           = Some (Inr windows, out)"
    and "generateFrameDescriptions env windows w2 = (Inr ds, w3)"
  shows "(send env (length (sent w3)) (SummaryReq ds) = SendError
          \<or> send env (length (sent w3)) (SummaryReq ds) = BodyUnparseable
          \<or> (\<exists>b. send env (length (sent w3)) (SummaryReq ds) = Body b
                 \<and> (content_text b = None
                    \<or> (\<exists>t. content_text b = Some t \<and> json_parse env t = None)))
          \<longrightarrow> (\<exists>e. analyze env a w =
                      Some (Inl (SummaryFailed e),
                            cleanup a (snd (generateVideoSummary env ds w3)))))
       \<and> (\<forall>b t v. send env (length (sent w3)) (SummaryReq ds) = Body b
                   \<and> content_text b = Some t \<and> json_parse env t = Some v
            \<longrightarrow> analyze env a w =
                  Some (Inr v, cleanup a (snd (generateVideoSummary env ds w3))))"
proof -
  note run = analyze_after_descriptions [OF assms]
  show ?thesis
    unfolding run fst_generateVideoSummary
    by (auto split: send_result.splits option.splits)
qed

theorem summary_failure_is_fatal_witness:
  "fst (downloadVideoFromUrl (env0 [answer 10 5 text_window1, answer 11 6 text_window2])
          analyzer0 world0) = Inr ''/work/tmp_1/video.mp4''
   \<and> applySlidingWindow sampled0 2 1 = Some (Inr windows0, [LogApplying, LogCreated 2 1 2])
   \<and> send (env0 [answer 10 5 text_window1, answer 11 6 text_window2]) 2
        (SummaryReq [JStr ''a person enters'', JStr ''the person leaves'']) = SendError
   \<and> map_option fst
        (analyze (env0 [answer 10 5 text_window1, answer 11 6 text_window2]) analyzer0 world0)
       = Some (Inl (SummaryFailed SendFailed))"
proof -
  let ?env = "env0 [answer 10 5 text_window1, answer 11 6 text_window2]"
  let ?d = "downloadVideoFromUrl ?env analyzer0 world0"
  let ?s = "sampleVideoFrames ?env analyzer0 ''/work/tmp_1/video.mp4'' (snd ?d)"
  let ?g = "generateFrameDescriptions ?env windows0 (snd ?s)"
  let ?ds = "[JStr ''a person enters'', JStr ''the person leaves'']"
  have d: "fst ?d = Inr ''/work/tmp_1/video.mp4''" by code_simp
  have s: "fst ?s = Inr (sampled0, videoInfo0)" by code_simp
  have g: "fst ?g = Inr ?ds" by code_simp
  have n: "length (sent (snd ?g)) = 2" by code_simp
  have c: "frameBatchSize (config analyzer0) = 2" "slidingWindowSize (config analyzer0) = 1"
    by code_simp+
  have seg: "applySlidingWindow sampled0 2 1 = Some (Inr windows0, [LogApplying, LogCreated 2 1 2])"
    by code_simp
  have fail: "send ?env 2 (SummaryReq ?ds) = SendError"
    by (simp add: env0_def serve_def)
  have r: "map_option fst (analyze ?env analyzer0 world0) = Some (Inl (SummaryFailed SendFailed))"
    by code_simp
  have d': "?d = (Inr ''/work/tmp_1/video.mp4'', snd ?d)" using d by (simp add: prod_eq_iff)
  have s': "?s = (Inr (sampled0, videoInfo0), snd ?s)" using s by (simp add: prod_eq_iff)
  have g': "?g = (Inr ?ds, snd ?g)" using g by (simp add: prod_eq_iff)
  have seg': "applySlidingWindow sampled0 (frameBatchSize (config analyzer0))
                (slidingWindowSize (config analyzer0))
              = Some (Inr windows0, [LogApplying, LogCreated 2 1 2])"
    by (simp only: c seg)
  have fail': "send ?env (length (sent (snd ?g))) (SummaryReq ?ds) = SendError"
    by (simp only: n fail)
  from summary_failure_is_fatal [OF d' s' seg' g', THEN conjunct1, rule_format, OF disjI1, OF fail']
  obtain e where "analyze ?env analyzer0 world0 =
                    Some (Inl (SummaryFailed e),
                          cleanup analyzer0 (snd (generateVideoSummary ?env ?ds (snd ?g))))"
    by blast
  with r have "analyze ?env analyzer0 world0 =
                 Some (Inl (SummaryFailed SendFailed),
                       cleanup analyzer0 (snd (generateVideoSummary ?env ?ds (snd ?g))))"
    by simp
  with d seg fail show ?thesis by simp
qed

section \<open>The analysis of the windows\<close>

text \<open>
  With a conforming service and readable frame files, one round of the loop pushes one
  entry: the placeholder when the analysis threw, leaving the context as it was, and the
  \<open>sequence_summary\<close> otherwise, which becomes the context. The list of descriptions then
  has one entry for each window.
\<close>

lemma analyzeFrames_result:
  "analyzeFrames env frames idx prev w = (Inr v, w1) \<Longrightarrow> \<exists>t. json_parse env t = Some v"
  by (auto simp: analyzeFrames_def Let_def split: prod.splits sum.splits option.splits)

lemma frame_loop_step_conforming:
  assumes "conforming env" and "read_frames env (framePaths window) = Inr frames"
  shows "frame_loop env (window # rest) ds prev w =
           (case analyzeFrames env frames (indices window) prev w of
              (Inl e, w1) \<Rightarrow> frame_loop env rest (ds @ [placeholder]) prev w1
            | (Inr result, w1) \<Rightarrow>
                (case js_get result ''sequence_summary'' of
                   Inl e \<Rightarrow> frame_loop env rest (ds @ [placeholder]) prev w1
                 | Inr s \<Rightarrow> frame_loop env rest (ds @ [s]) s w1))"
proof (cases "analyzeFrames env frames (indices window) prev w")
  case (Pair r w1)
  show ?thesis
  proof (cases r)
    case (Inl e)
    with Pair assms(2) show ?thesis by simp
  next
    case (Inr v)
    with Pair obtain t where "json_parse env t = Some v"
      using analyzeFrames_result by blast
    with assms(1) have "loggable v" by (auto simp: conforming_def)
    with Pair Inr assms(2) show ?thesis
      by (auto simp: loggable_def split: sum.splits)
  qed
qed

lemma frame_loop_length_conforming:
  assumes "conforming env" and "\<forall>window\<in>set windows. \<exists>frames. read_frames env (framePaths window) = Inr frames"
  shows "\<exists>ds' w'. frame_loop env windows ds prev w = (Inr ds', w')
                 \<and> length ds' = length ds + length windows"
  using assms(2)
proof (induction windows arbitrary: ds prev w)
  case Nil
  show ?case by simp
next
  case (Cons window rest)
  then obtain frames where r: "read_frames env (framePaths window) = Inr frames" by auto
  have rest: "\<exists>ds' w'. frame_loop env rest ds0 prev0 w0 = (Inr ds', w')
                 \<and> length ds' = length ds0 + length rest" for ds0 prev0 w0
    using Cons by simp
  show ?case
    unfolding frame_loop_step_conforming [OF assms(1) r]
    using rest
    by (auto split: prod.splits sum.splits) (metis length_append_singleton add_Suc_right add_Suc)+
qed

text \<open>
  Claim C3 fails on the code. The first of two windows is answered with a text that is
  JSON and has a \<open>sequence_summary\<close> but no \<open>key_events\<close>: the summary is pushed, the log
  line then throws on \<open>result.key_events.length\<close>, and the \<open>catch\<close> pushes the placeholder
  as well. Two windows give three descriptions.
\<close>

theorem generateFrameDescriptions_extra_entry:
  "length windows0 = 2
   \<and> fst (generateFrameDescriptions
            (env0 [answer 10 5 text_no_events, answer 11 6 text_window2]) windows0 world0)
       = Inr [JStr ''a person enters'', placeholder, JStr ''the person leaves'']"
  by code_simp

text \<open>
  Claim C2 fails on the code, by the same defect. The analysis of the first window throws
  (a TypeError, in the log line) and the window gets the placeholder, yet the second
  window is sent the first window's \<open>sequence_summary\<close> as its context, not \<open>None\<close>.
\<close>

theorem context_changed_by_failed_window:
  "json_parse0 text_no_events = Some (JObj [(''sequence_summary'', JStr ''a person enters'')])
   \<and> js_get (JObj [(''sequence_summary'', JStr ''a person enters'')]) ''key_events''
       = Inr Undefined
   \<and> js_get Undefined ''length'' = Inl TypeError
   \<and> sent (snd (generateFrameDescriptions
                  (env0 [answer 10 5 text_no_events, answer 11 6 text_window2])
                  windows0 world0))
       = [AnalyzeReq [''AAAA'', ''AAAA''] 2 (JStr ''None''),
          AnalyzeReq [''AAAA'', ''AAAA''] 2 (JStr ''a person enters'')]"
  by code_simp

section \<open>The frame count of \<open>getVideoInfo\<close>\<close>

lemma parseInt10_zero: "parseInt10 ''0'' = Some 0"
  by code_simp

text \<open>
  Where the code does follow the claim: a \<open>nb_frames\<close> that starts with a number is used
  as it is, and a \<open>nb_frames\<close> that is present but no number (as \<open>N/A\<close>) gives the
  rounded-up product of duration and frame rate, when both are there.
\<close>

lemma getVideoInfo_explicit_count:
  assumes "ffprobe env videoPath = Some streams"
    and "find (\<lambda>stream. codec_type stream = Some ''video'') streams = Some videoStream"
    and "nb_frames videoStream = Some s" and "s \<noteq> []" and "parseInt10 s = Some k"
  shows "map_sum id frameCount (getVideoInfo env videoPath) = Inr (Exact k)"
  using assms by (simp add: getVideoInfo_def or_default_def isNaN_def Let_def)

lemma getVideoInfo_fallback:
  assumes "ffprobe env videoPath = Some streams"
    and "find (\<lambda>stream. codec_type stream = Some ''video'') streams = Some videoStream"
    and "nb_frames videoStream = Some s" and "s \<noteq> []" and "parseInt10 s = None"
    and "r_frame_rate videoStream = Some r" and "r \<noteq> []"
    and "duration videoStream = Some d" and "d \<noteq> []"
    and "truthy env (rate_to_fps env r)"
  shows "map_sum id frameCount (getVideoInfo env videoPath) =
           Inr (if is_nan env (ceil_duration_times env d (rate_to_fps env r)) then Exact 0
                else Approx (ceil_duration_times env d (rate_to_fps env r)))"
  using assms by (simp add: getVideoInfo_def or_default_def isNaN_def Let_def)

text \<open>
  Claim C8 fails on the code. When the metadata of the video stream has no \<open>nb_frames\<close>,
  \<open>nb_frames || "0"\<close> makes the count 0, which is not \<open>NaN\<close>, so the fallback is not taken:
  for a stream of ten seconds at 30 frames a second the reported frame count is 0,
  whatever the floating-point operations are.
\<close>

theorem getVideoInfo_without_nb_frames:
  "map_sum id frameCount
     (getVideoInfo (env\<lparr>ffprobe := \<lambda>p. Some [stream_no_count]\<rparr>) videoPath)
   = Inr (Exact 0)"
  by (simp add: getVideoInfo_def stream_no_count_def or_default_def parseInt10_zero
                isNaN_def Let_def)

end
